theory Spec2Isabelle
  imports Complex_Main
begin

section \<open>Python values, arrays and exceptions\<close>

text \<open>
  The notebook \<^verbatim>\<open>QKV_Attention.ipynb\<close> defines five functions: \<^verbatim>\<open>tokenize\<close>,
  \<^verbatim>\<open>embed\<close>, \<^verbatim>\<open>softmax\<close>, \<^verbatim>\<open>calculate_weights\<close> and \<^verbatim>\<open>attention_qkv\<close>.
  Exceptions are values of \<open>error\<close>; a function that can raise returns \<open>error + 'a\<close>
  with \<open>Inl\<close> for the raised exception.

  A Python \<^verbatim>\<open>str\<close> is a list of Unicode code points. A 2-dimensional numpy array is a
  record of its shape and its rows; numpy arrays are rectangular, which \<open>wf_matrix\<close>
  states. Array entries are modelled as reals: the functions with a body only copy
  entries and build zeros, and no floating-point arithmetic is carried out by them.
\<close>

datatype error =
  KeyError | IndexError | AttributeError | AssertionError | ValueError | AxisError | OverflowError

type_synonym pystr = "nat list"

record matrix =
  nrows :: nat
  ncols :: nat
  rows :: "real list list"

definition wf_matrix :: "matrix \<Rightarrow> bool" where
  "wf_matrix a = (length (rows a) = nrows a \<and> list_all (\<lambda>r. length r = ncols a) (rows a))"

datatype pyval = PyNone | Array1 "real list" | Array2 matrix

section \<open>tokenize\<close>

text \<open>
  \<^verbatim>\<open>
  def tokenize(sentence, token_mapping):
      tokenized = []
      for word in sentence.lower().split(" "):
          try:
              tokenized.append(token_mapping[word])
          except KeyError:
              # Using -1 to indicate an unknown word
              tokenized.append(-1)
      return tokenized
  \<close>
  \<^verbatim>\<open>str.lower\<close> is a builtin whose Unicode case table is not part of the notebook; it is
  the parameter \<open>lower\<close>. \<open>ascii_lower\<close> is its behaviour on strings whose only cased
  capitals are ASCII, which holds of both example sentences.
\<close>

definition SPACE :: nat where
  "SPACE = 32"

text \<open>\<^verbatim>\<open>s.split(sep)\<close> with an explicit one-character separator: every occurrence of the
  separator ends a field, so empty fields are kept and the empty string gives one empty field.\<close>

fun str_split :: "nat \<Rightarrow> pystr \<Rightarrow> pystr list" where
  "str_split sep [] = [[]]"
| "str_split sep (c # cs) =
     (if c = sep then [] # str_split sep cs
      else (case str_split sep cs of [] \<Rightarrow> [[c]] | w # ws \<Rightarrow> (c # w) # ws))"

text \<open>\<^verbatim>\<open>sep.join(fields)\<close>, the inverse used to state what a field is.\<close>

fun str_join :: "nat \<Rightarrow> pystr list \<Rightarrow> pystr" where
  "str_join sep [] = []"
| "str_join sep [w] = w"
| "str_join sep (w # v # ws) = w @ sep # str_join sep (v # ws)"

definition ascii_lower :: "pystr \<Rightarrow> pystr" where
  "ascii_lower s = map (\<lambda>c. if 65 \<le> c \<and> c \<le> 90 then c + 32 else c) s"

text \<open>\<^verbatim>\<open>token_mapping[word]\<close> on a dict: KeyError when the key is absent.\<close>

definition dict_getitem :: "('k \<rightharpoonup> 'v) \<Rightarrow> 'k \<Rightarrow> error + 'v" where
  "dict_getitem d k = (case d k of None \<Rightarrow> Inl KeyError | Some v \<Rightarrow> Inr v)"

text \<open>The loop body appends to \<open>tokenized\<close>; the handler catches KeyError only, any other
  exception of the lookup would propagate.\<close>

fun tokenize_loop :: "(pystr \<rightharpoonup> int) \<Rightarrow> pystr list \<Rightarrow> int list \<Rightarrow> error + int list" where
  "tokenize_loop token_mapping [] tokenized = Inr tokenized"
| "tokenize_loop token_mapping (word # words) tokenized =
     (case dict_getitem token_mapping word of
        Inr v \<Rightarrow> tokenize_loop token_mapping words (tokenized @ [v])
      | Inl KeyError \<Rightarrow> tokenize_loop token_mapping words (tokenized @ [- 1])
      | Inl e \<Rightarrow> Inl e)"

definition tokenize :: "(pystr \<Rightarrow> pystr) \<Rightarrow> pystr \<Rightarrow> (pystr \<rightharpoonup> int) \<Rightarrow> error + int list" where
  "tokenize lower sentence token_mapping =
     tokenize_loop token_mapping (str_split SPACE (lower sentence)) []"

section \<open>embed\<close>

text \<open>
  \<^verbatim>\<open>
  def embed(tokens, embeddings):
      embed_size = embeddings.shape[1]
      output = np.zeros((len(tokens), embed_size))
      for i, token in enumerate(tokens):
          if token == -1:
              output[i] = np.zeros((1, embed_size))
          else:
              output[i] = embeddings[token]
      return output
  \<close>
\<close>

definition zeros :: "nat \<Rightarrow> nat \<Rightarrow> matrix" where
  "zeros r c = \<lparr>nrows = r, ncols = c, rows = replicate r (replicate c 0)\<rparr>"

text \<open>\<^verbatim>\<open>a[i]\<close> on a 2-dimensional array with a Python integer, on a platform whose index
  type is the signed 64-bit integer. An integer that fits the index type is an index: a
  negative one counts from the end, one outside \<open>[-n, n)\<close> raises IndexError. An integer
  that does not fit is tried as an array instead: one in \<open>[2^63, 2^64)\<close> is an unsigned
  64-bit value, whose conversion to an index raises OverflowError; any other is not an
  array of integers and raises IndexError.\<close>

definition getrow :: "matrix \<Rightarrow> int \<Rightarrow> error + real list" where
  "getrow a i =
     (if - (2 ^ 63) \<le> i \<and> i < 2 ^ 63 then
        (let n = int (nrows a); j = (if i < 0 then i + n else i)
         in if 0 \<le> j \<and> j < n then Inr (rows a ! nat j) else Inl IndexError)
      else if 2 ^ 63 \<le> i \<and> i < 2 ^ 64 then Inl OverflowError
      else Inl IndexError)"

text \<open>\<^verbatim>\<open>a[i] = v\<close> for a loop index \<open>i\<close>: the value is broadcast to the row's shape (a value
  of the row's length is copied, a single entry is repeated), anything else is a ValueError.\<close>

definition setrow :: "matrix \<Rightarrow> nat \<Rightarrow> real list \<Rightarrow> error + matrix" where
  "setrow a i v =
     (if nrows a \<le> i then Inl IndexError
      else if length v = ncols a then Inr (a\<lparr>rows := (rows a)[i := v]\<rparr>)
      else if length v = 1 then Inr (a\<lparr>rows := (rows a)[i := replicate (ncols a) (hd v)]\<rparr>)
      else Inl ValueError)"

fun embed_loop :: "matrix \<Rightarrow> nat \<Rightarrow> (nat \<times> int) list \<Rightarrow> matrix \<Rightarrow> error + matrix" where
  "embed_loop embeddings embed_size [] output = Inr output"
| "embed_loop embeddings embed_size ((i, token) # rest) output =
     (if token = - 1 then
        (case setrow output i (replicate embed_size 0) of
           Inl e \<Rightarrow> Inl e
         | Inr output' \<Rightarrow> embed_loop embeddings embed_size rest output')
      else
        (case getrow embeddings token of
           Inl e \<Rightarrow> Inl e
         | Inr r \<Rightarrow>
             (case setrow output i r of
                Inl e \<Rightarrow> Inl e
              | Inr output' \<Rightarrow> embed_loop embeddings embed_size rest output')))"

definition embed :: "int list \<Rightarrow> matrix \<Rightarrow> error + matrix" where
  "embed tokens embeddings =
     (let embed_size = ncols embeddings;
          output = zeros (length tokens) embed_size
      in embed_loop embeddings embed_size (enumerate 0 tokens) output)"

section \<open>softmax, calculate_weights and attention_qkv\<close>

text \<open>
  \<^verbatim>\<open>
  def softmax(x, axis=0):
      """ Calculate softmax function for an array x

          axis=0 calculates softmax across rows which means each column sums to 1
          axis=1 calculates softmax across columns which means each row sums to 1
      """
      # Replace pass with your code.
      pass
  \<close>
  The body is a docstring and \<^verbatim>\<open>pass\<close>: the call returns \<^verbatim>\<open>None\<close> for every argument.
\<close>

definition softmax :: "pyval \<Rightarrow> int \<Rightarrow> error + pyval" where
  "softmax x axis = Inr PyNone"

text \<open>The call \<^verbatim>\<open>weights.sum(axis=1)\<close>: \<^verbatim>\<open>None\<close> has no attribute \<^verbatim>\<open>sum\<close>, a
  1-dimensional array has no axis 1, and a 2-dimensional array gives the 1-dimensional
  array of its row sums (added here over the reals).\<close>

fun sum_axis1 :: "pyval \<Rightarrow> error + real list" where
  "sum_axis1 PyNone = Inl AttributeError"
| "sum_axis1 (Array1 v) = Inl AxisError"
| "sum_axis1 (Array2 a) = Inr (map sum_list (rows a))"

text \<open>\<^verbatim>\<open>sums[0]\<close> on the 1-dimensional array of sums.\<close>

fun first_entry :: "real list \<Rightarrow> error + real" where
  "first_entry [] = Inl IndexError"
| "first_entry (s # ss) = Inr s"

text \<open>
  \<^verbatim>\<open>
  def calculate_weights(queries, keys):
      """ Calculate the weights for scaled dot-product attention"""
      # Replace None with your code.
      dot = None
      weights = softmax(dot, axis=1)

      assert weights.sum(axis=1)[0] == 1, "Each row in weights must sum to 1"

      # Replace pass with your code.
      pass
  \<close>
\<close>

definition calculate_weights :: "pyval \<Rightarrow> pyval \<Rightarrow> error + pyval" where
  "calculate_weights queries keys =
     (let dot = PyNone in
      case softmax dot 1 of
        Inl e \<Rightarrow> Inl e
      | Inr weights \<Rightarrow>
          (case sum_axis1 weights of
             Inl e \<Rightarrow> Inl e
           | Inr row_sums \<Rightarrow>
               (case first_entry row_sums of
                  Inl e \<Rightarrow> Inl e
                | Inr s \<Rightarrow> if s = 1 then Inr PyNone else Inl AssertionError)))"

text \<open>
  \<^verbatim>\<open>
  def attention_qkv(queries, keys, values):
      """ Calculate scaled dot-product attention from queries, keys, and values matrices """
      # Replace pass with your code.
      pass
  \<close>
\<close>

definition attention_qkv :: "pyval \<Rightarrow> pyval \<Rightarrow> pyval \<Rightarrow> error + pyval" where
  "attention_qkv queries keys values = Inr PyNone"

text \<open>The attribute \<^verbatim>\<open>.shape\<close>, read by the cell that prints the result.\<close>

fun ndarray_shape :: "pyval \<Rightarrow> error + nat list" where
  "ndarray_shape PyNone = Inl AttributeError"
| "ndarray_shape (Array1 v) = Inr [length v]"
| "ndarray_shape (Array2 a) = Inr [nrows a, ncols a]"

section \<open>The example cells\<close>

text \<open>
  \<^verbatim>\<open>
  sentence_en = "The agreement on the European Economic Area was signed in August 1992 ."
  tokenized_en = tokenize(sentence_en, en_words)
  embedded_en = embed(tokenized_en, en_embeddings)

  sentence_fr = "L accord sur la zone economique europeenne a ete signe en aout 1992 ."   (accents dropped here)
  tokenized_fr = tokenize(sentence_fr, fr_words)
  embedded_fr = embed(tokenized_fr, fr_embeddings)
  ...
  attention_qkv_result = attention_qkv(embedded_fr, embedded_en, embedded_en)
  print(f"The shape of the attention_qkv function is {attention_qkv_result.shape}")
  \<close>
  The sentences are given by their code points (233 is e with acute accent, 251 is u with
  circumflex). The dictionaries and embedding tables are loaded from data files that are
  not part of the repository; they are parameters.
\<close>

definition sentence_en :: pystr where
  "sentence_en =
     [84, 104, 101, 32, 97, 103, 114, 101, 101, 109, 101, 110, 116, 32, 111, 110, 32,
      116, 104, 101, 32, 69, 117, 114, 111, 112, 101, 97, 110, 32, 69, 99, 111, 110,
      111, 109, 105, 99, 32, 65, 114, 101, 97, 32, 119, 97, 115, 32, 115, 105, 103,
      110, 101, 100, 32, 105, 110, 32, 65, 117, 103, 117, 115, 116, 32, 49, 57, 57,
      50, 32, 46]"

definition sentence_fr :: pystr where
  "sentence_fr =
     [76, 32, 97, 99, 99, 111, 114, 100, 32, 115, 117, 114, 32, 108, 97, 32, 122, 111,
      110, 101, 32, 233, 99, 111, 110, 111, 109, 105, 113, 117, 101, 32, 101, 117,
      114, 111, 112, 233, 101, 110, 110, 101, 32, 97, 32, 233, 116, 233, 32, 115, 105,
      103, 110, 233, 32, 101, 110, 32, 97, 111, 251, 116, 32, 49, 57, 57, 50, 32, 46]"

definition embedded :: "(pystr \<Rightarrow> pystr) \<Rightarrow> pystr \<Rightarrow> (pystr \<rightharpoonup> int) \<Rightarrow> matrix \<Rightarrow> error + matrix" where
  "embedded lower sentence words embeddings =
     (case tokenize lower sentence words of
        Inl e \<Rightarrow> Inl e
      | Inr tokenized \<Rightarrow> embed tokenized embeddings)"

definition attention_qkv_result ::
  "(pystr \<Rightarrow> pystr) \<Rightarrow> (pystr \<rightharpoonup> int) \<Rightarrow> (pystr \<rightharpoonup> int) \<Rightarrow> matrix \<Rightarrow> matrix \<Rightarrow> error + pyval" where
  "attention_qkv_result lower en_words fr_words en_embeddings fr_embeddings =
     (case embedded lower sentence_en en_words en_embeddings of
        Inl e \<Rightarrow> Inl e
      | Inr embedded_en \<Rightarrow>
          (case embedded lower sentence_fr fr_words fr_embeddings of
             Inl e \<Rightarrow> Inl e
           | Inr embedded_fr \<Rightarrow>
               attention_qkv (Array2 embedded_fr) (Array2 embedded_en) (Array2 embedded_en)))"

definition attention_qkv_result_shape ::
  "(pystr \<Rightarrow> pystr) \<Rightarrow> (pystr \<rightharpoonup> int) \<Rightarrow> (pystr \<rightharpoonup> int) \<Rightarrow> matrix \<Rightarrow> matrix \<Rightarrow> error + nat list" where
  "attention_qkv_result_shape lower en_words fr_words en_embeddings fr_embeddings =
     (case attention_qkv_result lower en_words fr_words en_embeddings fr_embeddings of
        Inl e \<Rightarrow> Inl e
      | Inr r \<Rightarrow> ndarray_shape r)"

section \<open>Notions used to state the properties\<close>

text \<open>The number of rows of a numpy array fits the signed 64-bit index type.\<close>

definition index_sized :: "matrix \<Rightarrow> bool" where
  "index_sized a = (int (nrows a) < 2 ^ 63)"

text \<open>A token that \<open>embed\<close> can look up: the unknown sentinel, or an index that numpy accepts
  for a table of \<open>nrows\<close> rows.\<close>

definition token_ok :: "matrix \<Rightarrow> int \<Rightarrow> bool" where
  "token_ok emb t = (t = - 1 \<or> (- int (nrows emb) \<le> t \<and> t < int (nrows emb)))"

text \<open>The row that such a token stands for.\<close>

definition token_row :: "matrix \<Rightarrow> int \<Rightarrow> real list" where
  "token_row emb t =
     (if t = - 1 then replicate (ncols emb) 0
      else if t < 0 then rows emb ! nat (t + int (nrows emb))
      else rows emb ! nat t)"

text \<open>The exception of \<^verbatim>\<open>embeddings[token]\<close> for a token that selects no row.\<close>

definition index_error :: "int \<Rightarrow> error" where
  "index_error t = (if 2 ^ 63 \<le> t \<and> t < 2 ^ 64 then OverflowError else IndexError)"

text \<open>The matrix obtained from \<open>X\<close> by adding the constant \<open>c\<close> to every entry of row \<open>i\<close>.\<close>

definition add_to_row :: "matrix \<Rightarrow> nat \<Rightarrow> real \<Rightarrow> matrix" where
  "add_to_row X i c = X\<lparr>rows := (rows X)[i := map (\<lambda>v. v + c) (rows X ! i)]\<rparr>"

section \<open>Properties of tokenize\<close>

lemma str_split_nonempty: "str_split sep s \<noteq> []"
  by (induction s) (auto split: list.splits)

lemma length_str_split: "length (str_split sep s) = Suc (count_list s sep)"
proof (induction s)
  case Nil
  show ?case by simp
next
  case (Cons c cs)
  then show ?case
    using str_split_nonempty [of sep cs] by (auto split: list.splits)
qed

lemma str_split_no_sep: "w \<in> set (str_split sep s) \<Longrightarrow> sep \<notin> set w"
proof (induction s arbitrary: w)
  case Nil
  then show ?case by simp
next
  case (Cons c cs)
  then show ?case
    by (auto split: if_splits list.splits)
qed

lemma str_join_Cons: "ws \<noteq> [] \<Longrightarrow> str_join sep (w # ws) = w @ sep # str_join sep ws"
  by (cases ws) simp_all

lemma str_join_split: "str_join sep (str_split sep s) = s"
proof (induction s)
  case Nil
  show ?case by simp
next
  case (Cons c cs)
  obtain w ws where sp: "str_split sep cs = w # ws"
    using str_split_nonempty [of sep cs] by (cases "str_split sep cs") auto
  show ?case
  proof (cases "c = sep")
    case True
    then show ?thesis
      using Cons sp by (simp add: str_join_Cons)
  next
    case False
    then show ?thesis
      using Cons sp by (cases ws) simp_all
  qed
qed

lemma tokenize_loop_map:
  "tokenize_loop m ws acc =
     Inr (acc @ map (\<lambda>w. case m w of None \<Rightarrow> - 1 | Some v \<Rightarrow> v) ws)"
  by (induction ws arbitrary: acc) (auto simp: dict_getitem_def split: option.splits)

section \<open>Properties of embed\<close>

lemma setrow_fits:
  "i < nrows a \<Longrightarrow> length v = ncols a \<Longrightarrow> setrow a i v = Inr (a\<lparr>rows := (rows a)[i := v]\<rparr>)"
  by (simp add: setrow_def)

lemma getrow_token:
  assumes "t \<noteq> - 1" "index_sized emb"
  shows "getrow emb t =
     (if token_ok emb t then Inr (token_row emb t) else Inl (index_error t))"
proof (cases "- (2 ^ 63) \<le> t \<and> t < 2 ^ 63")
  case True
  then have "index_error t = IndexError"
    by (simp add: index_error_def)
  with True assms(1) show ?thesis
    by (auto simp: getrow_def token_ok_def token_row_def Let_def)
next
  case False
  with assms have "\<not> token_ok emb t"
    by (auto simp: token_ok_def index_sized_def)
  with False show ?thesis
    by (auto simp: getrow_def index_error_def)
qed

lemma wf_row_length:
  "wf_matrix emb \<Longrightarrow> j < nrows emb \<Longrightarrow> length (rows emb ! j) = ncols emb"
  by (simp add: wf_matrix_def list_all_length)

lemma length_token_row:
  assumes "wf_matrix emb" "token_ok emb t"
  shows "length (token_row emb t) = ncols emb"
proof (cases "t = - 1")
  case True
  then show ?thesis by (simp add: token_row_def)
next
  case False
  with assms(2) have r: "- int (nrows emb) \<le> t" "t < int (nrows emb)"
    by (simp_all add: token_ok_def)
  show ?thesis
  proof (cases "t < 0")
    case True
    with r have "nat (t + int (nrows emb)) < nrows emb" by linarith
    with assms(1) True False show ?thesis
      by (simp add: token_row_def wf_row_length)
  next
    case False
    with r have "nat t < nrows emb" by linarith
    with assms(1) False \<open>t \<noteq> - 1\<close> show ?thesis
      by (simp add: token_row_def wf_row_length)
  qed
qed

lemma take_Suc_update:
  "k < length xs \<Longrightarrow> take (Suc k) (xs[k := v]) = take k xs @ [v]"
  by (simp add: take_Suc_conv_app_nth)

lemma embed_loop_char:
  assumes "wf_matrix emb" "index_sized emb"
  shows "length (rows out) = nrows out \<Longrightarrow> ncols out = ncols emb \<Longrightarrow> k + length ts = nrows out \<Longrightarrow>
     embed_loop emb (ncols emb) (enumerate k ts) out =
       (case find (\<lambda>t. \<not> token_ok emb t) ts of
          None \<Rightarrow> Inr (out\<lparr>rows := take k (rows out) @ map (token_row emb) ts\<rparr>)
        | Some t \<Rightarrow> Inl (index_error t))"
proof (induction ts arbitrary: k out)
  case Nil
  then show ?case by simp
next
  case (Cons t ts)
  have k: "k < nrows out" "k < length (rows out)"
    using Cons.prems by simp_all
  show ?case
  proof (cases "token_ok emb t")
    case False
    then have "t \<noteq> - 1" by (auto simp: token_ok_def)
    with False show ?thesis
      by (simp add: getrow_token [OF _ assms(2)])
  next
    case True
    let ?r = "token_row emb t"
    let ?out' = "out\<lparr>rows := (rows out)[k := ?r]\<rparr>"
    have len: "length ?r = ncols out"
      using length_token_row [OF assms(1) True] Cons.prems(2) by simp
    have set: "setrow out k ?r = Inr ?out'"
      using k(1) len by (rule setrow_fits)
    have step: "embed_loop emb (ncols emb) (enumerate k (t # ts)) out =
                embed_loop emb (ncols emb) (enumerate (Suc k) ts) ?out'"
    proof (cases "t = - 1")
      case True
      then have "?r = replicate (ncols emb) 0" by (simp add: token_row_def)
      with True set show ?thesis by simp
    next
      case False
      with True set show ?thesis by (simp add: getrow_token [OF _ assms(2)])
    qed
    have "embed_loop emb (ncols emb) (enumerate (Suc k) ts) ?out' =
            (case find (\<lambda>t. \<not> token_ok emb t) ts of
               None \<Rightarrow> Inr (?out'\<lparr>rows := take (Suc k) (rows ?out') @ map (token_row emb) ts\<rparr>)
             | Some t \<Rightarrow> Inl (index_error t))"
      using Cons.prems by (intro Cons.IH) simp_all
    with step True k(2) show ?thesis
      by (simp add: take_Suc_update split: option.splits)
  qed
qed

lemma embed_char:
  assumes "wf_matrix emb" "index_sized emb"
  shows "embed tokens emb =
     (case find (\<lambda>t. \<not> token_ok emb t) tokens of
        None \<Rightarrow> Inr \<lparr>nrows = length tokens, ncols = ncols emb, rows = map (token_row emb) tokens\<rparr>
      | Some t \<Rightarrow> Inl (index_error t))"
  using embed_loop_char [OF assms, of "zeros (length tokens) (ncols emb)" 0 tokens]
  by (simp add: embed_def zeros_def split: option.splits)

lemma find_bad_token_None:
  "find (\<lambda>t. \<not> token_ok emb t) tokens = None \<longleftrightarrow> list_all (token_ok emb) tokens"
  by (auto simp: find_None_iff list_all_iff)

lemma embed_char_ok:
  assumes "wf_matrix emb" "index_sized emb" "list_all (token_ok emb) tokens"
  shows "embed tokens emb =
     Inr \<lparr>nrows = length tokens, ncols = ncols emb, rows = map (token_row emb) tokens\<rparr>"
  using embed_char [OF assms(1,2), of tokens] assms(3)
  by (simp add: find_bad_token_None [symmetric])

lemma embed_wf:
  assumes "wf_matrix emb" "index_sized emb" "embed tokens emb = Inr out"
  shows "wf_matrix out \<and> nrows out = length tokens \<and> ncols out = ncols emb"
proof -
  have "find (\<lambda>t. \<not> token_ok emb t) tokens = None"
    using embed_char [OF assms(1,2), of tokens] assms(3) by (simp split: option.splits)
  then have ok: "list_all (token_ok emb) tokens"
    by (simp add: find_bad_token_None)
  then have out: "out = \<lparr>nrows = length tokens, ncols = ncols emb, rows = map (token_row emb) tokens\<rparr>"
    using embed_char_ok [OF assms(1,2)] assms(3) by simp
  have "list_all (\<lambda>r. length r = ncols emb) (map (token_row emb) tokens)"
    using ok length_token_row [OF assms(1)] by (simp add: list_all_iff)
  with out show ?thesis
    by (simp add: wf_matrix_def)
qed

section \<open>Properties of the example cells\<close>

lemma sentence_en_fields: "length (str_split SPACE (ascii_lower sentence_en)) = 13"
  by (simp add: sentence_en_def ascii_lower_def SPACE_def)

lemma sentence_fr_fields: "length (str_split SPACE (ascii_lower sentence_fr)) = 14"
  by (simp add: sentence_fr_def ascii_lower_def SPACE_def)

lemma embedded_succeeds:
  assumes "wf_matrix emb" "index_sized emb" "\<forall>w v. words w = Some v \<longrightarrow> token_ok emb v"
  shows "\<exists>a. embedded lower sentence words emb = Inr a"
proof -
  let ?f = "\<lambda>w. case words w of None \<Rightarrow> - 1 | Some v \<Rightarrow> v"
  have "token_ok emb (?f w)" for w
    using assms(3) by (cases "words w") (simp_all add: token_ok_def)
  then have "list_all (token_ok emb) (map ?f (str_split SPACE (lower sentence)))"
    by (simp add: list_all_iff)
  then show ?thesis
    using embed_char_ok [OF assms(1,2)]
    by (simp add: embedded_def tokenize_def tokenize_loop_map)
qed

lemma example_cell_attribute_error:
  assumes "wf_matrix en_embeddings" "index_sized en_embeddings"
      "\<forall>w v. en_words w = Some v \<longrightarrow> token_ok en_embeddings v"
    and "wf_matrix fr_embeddings" "index_sized fr_embeddings"
      "\<forall>w v. fr_words w = Some v \<longrightarrow> token_ok fr_embeddings v"
  shows "attention_qkv_result_shape lower en_words fr_words en_embeddings fr_embeddings
           = Inl AttributeError"
proof -
  obtain a where a: "embedded lower sentence_en en_words en_embeddings = Inr a"
    using embedded_succeeds [OF assms(1,2,3)] by blast
  obtain b where b: "embedded lower sentence_fr fr_words fr_embeddings = Inr b"
    using embedded_succeeds [OF assms(4,5,6)] by blast
  show ?thesis
    by (simp add: attention_qkv_result_shape_def attention_qkv_result_def attention_qkv_def a b)
qed

section \<open>The claims\<close>

text \<open>
  Claim C1. \<open>attention_qkv\<close> has no computation in its body: for every three arguments it
  returns \<^verbatim>\<open>None\<close>, not the product of the softmax weights with the values and not an
  array of shape \<open>(n_q, d_v)\<close>.
\<close>

theorem attention_qkv_returns_none: "attention_qkv queries keys values = Inr PyNone"
  by (simp add: attention_qkv_def)

text \<open>
  Claim C2. \<open>softmax\<close> returns \<^verbatim>\<open>None\<close> for every input and every axis: no array of the
  shape of the input, no non-negative entries, no rows or columns that sum to one.
\<close>

theorem softmax_returns_none: "softmax x axis = Inr PyNone"
  by (simp add: softmax_def)

text \<open>
  Claim C3. On the matrix \<^verbatim>\<open>[[1e4, -1e4]]\<close>, an input with entries of large magnitude,
  \<open>softmax\<close> returns \<^verbatim>\<open>None\<close> along either axis: no maximum is subtracted, nothing is
  exponentiated, and no matrix of finite weights is returned.
\<close>

theorem softmax_large_entries_returns_none:
  "softmax (Array2 \<lparr>nrows = 1, ncols = 2, rows = [[10000, - 10000]]\<rparr>) axis = Inr PyNone"
  by (simp add: softmax_def)

text \<open>
  Claim C4. For every matrix \<open>X\<close>, row index \<open>i\<close> and constant \<open>c\<close>, \<open>softmax\<close> with
  \<open>axis = 1\<close> returns \<^verbatim>\<open>None\<close> on \<open>X\<close> and on \<open>X\<close> with \<open>c\<close> added to every entry of row
  \<open>i\<close>: neither call yields weights that could be compared.
\<close>

theorem softmax_row_shift_no_weights:
  "softmax (Array2 (add_to_row X i c)) 1 = Inr PyNone \<and> softmax (Array2 X) 1 = Inr PyNone"
  by (simp add: softmax_def)

text \<open>
  Claim C5. On the 1-dimensional array \<^verbatim>\<open>[1.0, 2.0]\<close> with \<open>axis = 1\<close>, an axis that the
  array does not have, \<open>softmax\<close> returns \<^verbatim>\<open>None\<close> and raises nothing.
\<close>

theorem softmax_1d_returns_none: "softmax (Array1 [1, 2]) 1 = Inr PyNone"
  by (simp add: softmax_def)

text \<open>
  Claim C6. On queries of shape \<open>(1, 2)\<close>, keys of shape \<open>(1, 3)\<close> and values of shape
  \<open>(2, 1)\<close>, where both the column counts of queries and keys and the row counts of keys
  and values differ, \<open>attention_qkv\<close> returns \<^verbatim>\<open>None\<close> and raises nothing.
\<close>

theorem attention_qkv_mismatch_returns:
  "attention_qkv (Array2 \<lparr>nrows = 1, ncols = 2, rows = [[1, 2]]\<rparr>)
                 (Array2 \<lparr>nrows = 1, ncols = 3, rows = [[1, 2, 3]]\<rparr>)
                 (Array2 \<lparr>nrows = 2, ncols = 1, rows = [[1], [2]]\<rparr>) = Inr PyNone"
  by (simp add: attention_qkv_def)

text \<open>
  Claim C7. For the two example sentences and any dictionaries and embedding tables, reading
  \<^verbatim>\<open>attention_qkv_result.shape\<close> raises: an exception of \<open>embed\<close> if one of the two
  embeddings fails, and AttributeError otherwise, because the result is \<^verbatim>\<open>None\<close>. No
  shape \<open>(14, 300)\<close> and no entries are produced.
\<close>

theorem attention_qkv_result_shape_raises:
  "attention_qkv_result_shape lower en_words fr_words en_embeddings fr_embeddings =
     (case embedded lower sentence_en en_words en_embeddings of
        Inl e \<Rightarrow> Inl e
      | Inr embedded_en \<Rightarrow>
          (case embedded lower sentence_fr fr_words fr_embeddings of
             Inl e \<Rightarrow> Inl e
           | Inr embedded_fr \<Rightarrow> Inl AttributeError))"
  by (simp add: attention_qkv_result_shape_def attention_qkv_result_def attention_qkv_def
           split: sum.splits)

text \<open>
  Claim C8. For every pair of arguments \<open>calculate_weights\<close> raises AttributeError while it
  evaluates the asserted expression: \<open>weights\<close> is \<^verbatim>\<open>None\<close>, which has no \<^verbatim>\<open>sum\<close>. The
  assertion is never found true.
\<close>

theorem calculate_weights_raises: "calculate_weights queries keys = Inl AttributeError"
  by (simp add: calculate_weights_def softmax_def)

text \<open>
  Claim C9. For every sentence and every word-to-index dictionary, \<open>tokenize\<close> raises no
  exception and returns one integer per field of the lowercased sentence split at every
  space: the dictionary's index of the field, and \<open>-1\<close> for a field that is not a key. The
  number of fields is one more than the number of spaces, so consecutive, leading and
  trailing spaces give empty fields, each with a token of its own.
\<close>

theorem tokenize_fields:
  "tokenize lower sentence token_mapping =
     Inr (map (\<lambda>word. case token_mapping word of None \<Rightarrow> - 1 | Some v \<Rightarrow> v)
            (str_split SPACE (lower sentence)))
   \<and> length (str_split SPACE (lower sentence)) = Suc (count_list (lower sentence) SPACE)"
  by (simp add: tokenize_def tokenize_loop_map length_str_split)

text \<open>
  Claim C9 at the sentence \<^verbatim>\<open>" A  b "\<close> with the dictionary \<^verbatim>\<open>{"a": 0, "b": 7}\<close>: five
  fields, the three empty ones mapped to \<open>-1\<close>.
\<close>

theorem tokenize_fields_witness:
  "tokenize ascii_lower [32, 65, 32, 32, 98, 32] [[97] \<mapsto> 0, [98] \<mapsto> 7]
     = Inr [- 1, 0, - 1, 7, - 1]"
  using tokenize_fields [of ascii_lower "[32, 65, 32, 32, 98, 32]" "[[97] \<mapsto> 0, [98] \<mapsto> 7]"]
  by (simp add: ascii_lower_def SPACE_def)

text \<open>
  Claim C10, as stated, fails twice on the table \<^verbatim>\<open>[[0.0]]\<close>: the token \<open>0\<close> is not \<open>-1\<close>
  and its row is all zero, and the token \<open>1\<close> makes \<open>embed\<close> raise IndexError instead of
  returning a matrix.
\<close>

theorem embed_counterexample:
  "embed [0] \<lparr>nrows = 1, ncols = 1, rows = [[0]]\<rparr> = Inr \<lparr>nrows = 1, ncols = 1, rows = [[0]]\<rparr> \<and>
   embed [1] \<lparr>nrows = 1, ncols = 1, rows = [[0]]\<rparr> = Inl IndexError"
  by (simp add: embed_def zeros_def getrow_def setrow_def)

text \<open>
  Claim C10, amended. For a rectangular embedding table with \<open>n\<close> rows: if every token is
  \<open>-1\<close> or lies in \<open>[-n, n)\<close>, \<open>embed\<close> returns a matrix with one row per token and the
  table's number of columns, where the row of a token \<open>-1\<close> is all zero, the row of a token
  \<open>t \<ge> 0\<close> is row \<open>t\<close> of the table and the row of any other negative token \<open>t\<close> is row
  \<open>n + t\<close> of the table. Otherwise \<open>embed\<close> raises at the first token \<open>t\<close> that is neither:
  OverflowError if \<open>2^63 \<le> t < 2^64\<close>, IndexError for any other \<open>t\<close>.
\<close>

theorem embed_rows:
  assumes "wf_matrix embeddings" and "index_sized embeddings"
  shows "embed tokens embeddings =
     (case find (\<lambda>t. \<not> (t = - 1 \<or> (- int (nrows embeddings) \<le> t \<and> t < int (nrows embeddings))))
                tokens of
        None \<Rightarrow>
          Inr \<lparr>nrows = length tokens, ncols = ncols embeddings,
               rows = map (\<lambda>t. if t = - 1 then replicate (ncols embeddings) 0
                               else if t < 0 then rows embeddings ! nat (t + int (nrows embeddings))
                               else rows embeddings ! nat t) tokens\<rparr>
      | Some t \<Rightarrow> Inl (if 2 ^ 63 \<le> t \<and> t < 2 ^ 64 then OverflowError else IndexError))"
proof -
  have ok: "(\<lambda>t. \<not> token_ok embeddings t) =
      (\<lambda>t. \<not> (t = - 1 \<or> (- int (nrows embeddings) \<le> t \<and> t < int (nrows embeddings))))"
    by (rule ext) (simp add: token_ok_def)
  have row: "token_row embeddings =
      (\<lambda>t. if t = - 1 then replicate (ncols embeddings) 0
            else if t < 0 then rows embeddings ! nat (t + int (nrows embeddings))
            else rows embeddings ! nat t)"
    by (rule ext) (simp add: token_row_def)
  have err: "index_error = (\<lambda>t. if 2 ^ 63 \<le> t \<and> t < 2 ^ 64 then OverflowError else IndexError)"
    by (rule ext) (simp add: index_error_def)
  have "embed tokens embeddings =
     (case find (\<lambda>t. \<not> token_ok embeddings t) tokens of
        None \<Rightarrow> Inr \<lparr>nrows = length tokens, ncols = ncols embeddings,
                      rows = map (token_row embeddings) tokens\<rparr>
      | Some t \<Rightarrow> Inl (index_error t))"
    by (rule embed_char [OF assms])
  then show ?thesis
    by (simp only: ok row err)
qed

text \<open>
  Claim C10, amended, at the table \<^verbatim>\<open>[[1, 2], [3, 4]]\<close>: for the tokens
  \<^verbatim>\<open>[-1, 0, -2, 1]\<close> the token \<open>-2\<close> selects row \<open>0\<close>, the second row from the end; for
  the tokens \<^verbatim>\<open>[0, 2**63, 5]\<close> the first token without a row is \<open>2^63\<close>, an OverflowError.
\<close>

theorem embed_rows_witness:
  "wf_matrix \<lparr>nrows = 2, ncols = 2, rows = [[1, 2], [3, 4]]\<rparr> \<and>
   index_sized \<lparr>nrows = 2, ncols = 2, rows = [[1, 2], [3, 4]]\<rparr> \<and>
   embed [- 1, 0, - 2, 1] \<lparr>nrows = 2, ncols = 2, rows = [[1, 2], [3, 4]]\<rparr> =
     Inr \<lparr>nrows = 4, ncols = 2, rows = [[0, 0], [1, 2], [1, 2], [3, 4]]\<rparr> \<and>
   embed [0, 2 ^ 63, 5] \<lparr>nrows = 2, ncols = 2, rows = [[1, 2], [3, 4]]\<rparr> = Inl OverflowError"
proof -
  have wf: "wf_matrix \<lparr>nrows = 2, ncols = 2, rows = [[1, 2], [3, 4]]\<rparr>"
    by (simp add: wf_matrix_def)
  have sz: "index_sized \<lparr>nrows = 2, ncols = 2, rows = [[1, 2], [3, 4]]\<rparr>"
    by (simp add: index_sized_def)
  show ?thesis
    using wf sz embed_rows [OF wf sz, of "[- 1, 0, - 2, 1]"] embed_rows [OF wf sz, of "[0, 2 ^ 63, 5]"]
    by (simp add: numeral_2_eq_2)
qed

end
